theory Spec2Isabelle
  imports Complex_Main "HOL-Library.Multiset"
begin

section \<open>JavaScript values used by \<open>src/utils/calculations.js\<close>\<close>

text \<open>
  A JavaScript number is a finite value, one of the two infinities, or NaN. Finite values
  are kept as exact rationals: IEEE rounding and the sign of zero are not modelled.
  The fields of an inventory item that hold numbers hold finite numbers (they come from
  forms, CSV rows and JSON); a field that is absent (\<open>undefined\<close>) is \<open>None\<close>.
  Infinity and NaN only arise as results of arithmetic.
\<close>

datatype jsnum = Fin rat | PInf | NInf | NaN

text \<open>\<open>ToNumber\<close> of a field: \<open>undefined\<close> becomes NaN.\<close>

fun toNum :: "rat option \<Rightarrow> jsnum" where
  "toNum None = NaN"
| "toNum (Some r) = Fin r"

text \<open>Truthiness of a number field (absent and \<open>0\<close> are falsy) and of a string field
  (absent and the empty string are falsy).\<close>

fun truthyNum :: "rat option \<Rightarrow> bool" where
  "truthyNum None = False"
| "truthyNum (Some r) = (r \<noteq> 0)"

fun truthyStr :: "string option \<Rightarrow> bool" where
  "truthyStr None = False"
| "truthyStr (Some s) = (s \<noteq> [])"

text \<open>\<open>a || d\<close> on a number field with a numeric default.\<close>

fun numOr :: "rat option \<Rightarrow> rat \<Rightarrow> rat" where
  "numOr None d = d"
| "numOr (Some r) d = (if r \<noteq> 0 then r else d)"

text \<open>Relational operators on fields: any comparison with \<open>undefined\<close> (NaN) is false.\<close>

fun optLe :: "rat option \<Rightarrow> rat option \<Rightarrow> bool" where
  "optLe (Some a) (Some b) = (a \<le> b)"
| "optLe _ _ = False"

fun optGt :: "rat option \<Rightarrow> rat option \<Rightarrow> bool" where
  "optGt (Some a) (Some b) = (a > b)"
| "optGt _ _ = False"

fun jdiv :: "jsnum \<Rightarrow> jsnum \<Rightarrow> jsnum" where
  "jdiv NaN _ = NaN"
| "jdiv _ NaN = NaN"
| "jdiv (Fin a) (Fin b) =
     (if b = 0 then (if a = 0 then NaN else if a > 0 then PInf else NInf) else Fin (a / b))"
| "jdiv (Fin a) PInf = Fin 0"
| "jdiv (Fin a) NInf = Fin 0"
| "jdiv PInf (Fin b) = (if b \<ge> 0 then PInf else NInf)"
| "jdiv NInf (Fin b) = (if b \<ge> 0 then NInf else PInf)"
| "jdiv PInf PInf = NaN"
| "jdiv PInf NInf = NaN"
| "jdiv NInf PInf = NaN"
| "jdiv NInf NInf = NaN"

fun jadd :: "jsnum \<Rightarrow> jsnum \<Rightarrow> jsnum" where
  "jadd NaN _ = NaN"
| "jadd _ NaN = NaN"
| "jadd (Fin a) (Fin b) = Fin (a + b)"
| "jadd PInf NInf = NaN"
| "jadd NInf PInf = NaN"
| "jadd PInf _ = PInf"
| "jadd NInf _ = NInf"
| "jadd (Fin a) PInf = PInf"
| "jadd (Fin a) NInf = NInf"

fun jle :: "jsnum \<Rightarrow> jsnum \<Rightarrow> bool" where
  "jle NaN _ = False"
| "jle _ NaN = False"
| "jle (Fin a) (Fin b) = (a \<le> b)"
| "jle NInf _ = True"
| "jle _ PInf = True"
| "jle PInf _ = False"
| "jle (Fin a) NInf = False"

fun jgt :: "jsnum \<Rightarrow> jsnum \<Rightarrow> bool" where
  "jgt NaN _ = False"
| "jgt _ NaN = False"
| "jgt (Fin a) (Fin b) = (a > b)"
| "jgt PInf PInf = False"
| "jgt PInf _ = True"
| "jgt NInf _ = False"
| "jgt (Fin a) NInf = True"
| "jgt (Fin a) PInf = False"

text \<open>\<open>Math.ceil\<close>.\<close>

fun jceil :: "jsnum \<Rightarrow> jsnum" where
  "jceil (Fin r) = Fin (of_int \<lceil>r\<rceil>)"
| "jceil x = x"

text \<open>A number that is a finite integer (\<open>Number.isInteger\<close>).\<close>

fun isInteger :: "jsnum \<Rightarrow> bool" where
  "isInteger (Fin r) = (r = of_int \<lfloor>r\<rfloor>)"
| "isInteger _ = False"

text \<open>The values the expression \<open>a && b && c\<close> of the subscription check can take.\<close>

datatype jsval = JUndefined | JStr string | JBool bool

fun truthy :: "jsval \<Rightarrow> bool" where
  "truthy JUndefined = False"
| "truthy (JStr s) = (s \<noteq> [])"
| "truthy (JBool b) = b"

section \<open>Inventory items and suggestions\<close>

text \<open>
  Items are plain objects. The record lists every property the calculation module reads or
  writes; a suggestion is the item with the derived properties set (the source builds it with
  an object spread). \<open>optimalOrderQuantity\<close> is \<open>item.aiMetadata?.optimalOrderQuantity\<close>,
  \<open>purchaseHistory\<close> is the list of \<open>(date, quantity, price)\<close> entries, and
  \<open>hasSubscription\<close> is the truthiness of that property.
\<close>

record item =
  ident :: "nat option"
  name :: "string option"
  quantity :: "rat option"
  category :: "string option"
  minThreshold :: "rat option"
  price :: "rat option"
  purchaseFrequency :: "string option"
  dailyConsumptionRate :: "rat option"
  optimalOrderQuantity :: "rat option"
  hasSubscription :: bool
  purchaseHistory :: "(string \<times> rat \<times> rat) list option"
  store :: "string option"
  aisle :: "rat option"
  orderQuantity :: "rat option"
  daysLeft :: "rat option"
  confidence :: "rat option"
  suggestedOrderQuantity :: "rat option"
  bulkRecommended :: "bool option"
  subscriptionEligible :: jsval
  urgency :: "string option"
  consumptionRate :: "rat option"
  essential :: "bool option"
  bulkOrderRecommended :: "bool option"
  regularOrderQuantity :: "rat option"
  bulkOrderQuantity :: "rat option"
  bulkOrderSavings :: "rat option"

text \<open>The object with no property set; concrete items are written as updates of it.\<close>

definition emptyItem :: item where
  "emptyItem = \<lparr> ident = None, name = None, quantity = None, category = None,
     minThreshold = None, price = None, purchaseFrequency = None,
     dailyConsumptionRate = None, optimalOrderQuantity = None, hasSubscription = False,
     purchaseHistory = None, store = None, aisle = None, orderQuantity = None,
     daysLeft = None, confidence = None, suggestedOrderQuantity = None,
     bulkRecommended = None, subscriptionEligible = JUndefined, urgency = None,
     consumptionRate = None, essential = None, bulkOrderRecommended = None,
     regularOrderQuantity = None, bulkOrderQuantity = None, bulkOrderSavings = None \<rparr>"

text \<open>What the caller's surroundings supply: the clock behind \<open>new Date().toISOString()\<close>
  and the collation behind \<open>String.prototype.localeCompare\<close>.\<close>

record env =
  now :: string
  localeCompare :: "string \<Rightarrow> string \<Rightarrow> rat"

section \<open>\<open>validateItem\<close>\<close>

record validation =
  valid :: bool
  error :: "string option"

fun joinWith :: "string \<Rightarrow> string list \<Rightarrow> string" where
  "joinWith sep [] = []"
| "joinWith sep [x] = x"
| "joinWith sep (x # y # ys) = x @ sep @ joinWith sep (y # ys)"

text \<open>\<open>requiredFields.filter(field => !item[field])\<close>: a required field is missing when its
  value is falsy, so a quantity of \<open>0\<close> counts as missing.\<close>

definition missingFields :: "item \<Rightarrow> string list" where
  "missingFields it =
     (if \<not> truthyStr (name it) then [''name''] else []) @
     (if \<not> truthyNum (quantity it) then [''quantity''] else []) @
     (if \<not> truthyStr (category it) then [''category''] else [])"

definition validFrequencies :: "string list" where
  "validFrequencies = [''daily'', ''weekly'', ''biweekly'', ''monthly'', ''asNeeded'']"

text \<open>The \<open>typeof ... !== 'number' || isNaN(...)\<close> tests on quantity, price and minThreshold
  cannot fail on an item of this record type, whose number fields hold finite numbers.\<close>

definition validateItem :: "item \<Rightarrow> validation" where
  "validateItem it =
     (if missingFields it \<noteq> [] then
        \<lparr> valid = False,
          error = Some (''Missing required fields: '' @ joinWith '', '' (missingFields it)) \<rparr>
      else if truthyStr (purchaseFrequency it)
              \<and> the (purchaseFrequency it) \<notin> set validFrequencies then
        \<lparr> valid = False,
          error = Some (''Invalid purchase frequency. Must be one of: ''
                        @ joinWith '', '' validFrequencies) \<rparr>
      else \<lparr> valid = True, error = None \<rparr>)"

section \<open>\<open>calculateDaysLeft\<close>\<close>

text \<open>
  \<open>item.dailyConsumptionRate || (item.minThreshold / 14)\<close>, then
  \<open>Math.ceil(item.quantity / dailyRate)\<close>. Nothing guards the division.
\<close>

definition dailyRate :: "item \<Rightarrow> jsnum" where
  "dailyRate it =
     (if truthyNum (dailyConsumptionRate it) then toNum (dailyConsumptionRate it)
      else jdiv (toNum (minThreshold it)) (Fin 14))"

definition calculateDaysLeft :: "item \<Rightarrow> jsnum" where
  "calculateDaysLeft it =
     (if optLe (quantity it) (Some 0) then Fin 0
      else jceil (jdiv (toNum (quantity it)) (dailyRate it)))"

text \<open>\<open>calculateDaysLeft\<close> returns a number. Its callers in this module read the properties
  \<open>daysLeft\<close>, \<open>confidence\<close> and \<open>dailyConsumptionRate\<close> of that number; a property read on a
  number primitive gives \<open>undefined\<close>.\<close>

definition numberProperty :: "jsnum \<Rightarrow> rat option" where
  "numberProperty n = None"

section \<open>\<open>calculateReorderSuggestions\<close>\<close>

record reorderOptions =
  notificationThreshold :: rat
  includeAlmostEmpty :: bool
  includeBelowThreshold :: bool
  includeOutOfStock :: bool
  bulkPurchaseThreshold :: rat

text \<open>The defaults of the destructuring, used when the caller passes no option.\<close>

definition defaultReorderOptions :: reorderOptions where
  "defaultReorderOptions = \<lparr> notificationThreshold = 7, includeAlmostEmpty = True,
     includeBelowThreshold = True, includeOutOfStock = True, bulkPurchaseThreshold = 3 \<rparr>"

text \<open>The filter callback.\<close>

definition needsAttention :: "reorderOptions \<Rightarrow> item \<Rightarrow> bool" where
  "needsAttention opts it =
     (if \<not> valid (validateItem it) then False
      else if includeOutOfStock opts \<and> quantity it = Some 0 then True
      else if includeBelowThreshold opts \<and> optLe (quantity it) (minThreshold it) then True
      else if includeAlmostEmpty opts then
        optLe (numberProperty (calculateDaysLeft it)) (Some (notificationThreshold opts))
      else False)"

text \<open>The quantity before the final rounding: the stored optimum when it is truthy, otherwise
  the base quantity times the multiplier of the purchase frequency.\<close>

definition rawOrderQuantity :: "item \<Rightarrow> rat" where
  "rawOrderQuantity it =
     (if truthyNum (optimalOrderQuantity it) then the (optimalOrderQuantity it)
      else
        let baseQuantity = max 1 (numOr (minThreshold it) 1) in
        if purchaseFrequency it = Some ''daily'' then baseQuantity * 3
        else if purchaseFrequency it = Some ''weekly'' then baseQuantity * 2
        else if purchaseFrequency it = Some ''biweekly'' then of_int \<lceil>baseQuantity * (3 / 2)\<rceil>
        else if purchaseFrequency it = Some ''monthly'' then baseQuantity * (6 / 5)
        else baseQuantity)"

text \<open>\<open>item.purchaseFrequency && item.purchaseFrequency !== 'asNeeded' && !item.hasSubscription\<close>:
  the value of \<open>&&\<close> is its first falsy operand.\<close>

definition subscriptionCheck :: "item \<Rightarrow> jsval" where
  "subscriptionCheck it =
     (case purchaseFrequency it of
        None \<Rightarrow> JUndefined
      | Some f \<Rightarrow> if f = [] then JStr f
                  else JBool (f \<noteq> ''asNeeded'' \<and> \<not> hasSubscription it))"

definition urgencyOf :: "item \<Rightarrow> rat option \<Rightarrow> string" where
  "urgencyOf it dl =
     (if quantity it = Some 0 then ''critical''
      else if optLe (quantity it) (minThreshold it) then ''high''
      else if optLe dl (Some 3) then ''medium''
      else ''low'')"

text \<open>The map callback.\<close>

definition toSuggestion :: "reorderOptions \<Rightarrow> item \<Rightarrow> item" where
  "toSuggestion opts it =
     (let daysLeftInfo = calculateDaysLeft it;
          q = rawOrderQuantity it
      in it \<lparr> daysLeft := numberProperty daysLeftInfo,
              confidence := numberProperty daysLeftInfo,
              suggestedOrderQuantity := Some (max 1 (of_int \<lceil>q\<rceil>)),
              bulkRecommended := Some (q \<ge> bulkPurchaseThreshold opts),
              subscriptionEligible := subscriptionCheck it,
              urgency := Some (urgencyOf it (numberProperty daysLeftInfo)),
              consumptionRate := numberProperty daysLeftInfo \<rparr>)"

record reorderCounts =
  totalItems :: nat
  criticalItems :: nat
  highPriorityItems :: nat
  bulkOpportunities :: nat
  subscriptionOpportunities :: nat
  timestamp :: string

text \<open>How a call ends: the \<open>{success: false, error}\<close> object with a fixed message, the same
  object built by a \<open>catch\<close> block from a thrown error, or the successful payload.\<close>

datatype jsError = TypeError

datatype 'a outcome = Failed string | Threw jsError | Succeeded 'a

record 'a result =
  items :: "item list"
  metadata :: "'a outcome"

definition calculateReorderSuggestions ::
  "env \<Rightarrow> item list option \<Rightarrow> reorderOptions \<Rightarrow> reorderCounts result" where
  "calculateReorderSuggestions e inventory opts =
     (case inventory of
        None \<Rightarrow> \<lparr> items = [], metadata = Failed ''Invalid or empty inventory'' \<rparr>
      | Some stock \<Rightarrow>
          if stock = [] then \<lparr> items = [], metadata = Failed ''Invalid or empty inventory'' \<rparr>
          else
            let suggestedItems = map (toSuggestion opts) (filter (needsAttention opts) stock)
            in \<lparr> items = suggestedItems,
                 metadata = Succeeded
                   \<lparr> totalItems = length suggestedItems,
                     criticalItems =
                       length (filter (\<lambda>s. urgency s = Some ''critical'') suggestedItems),
                     highPriorityItems =
                       length (filter (\<lambda>s. urgency s = Some ''high'') suggestedItems),
                     bulkOpportunities =
                       length (filter (\<lambda>s. bulkRecommended s = Some True) suggestedItems),
                     subscriptionOpportunities =
                       length (filter (\<lambda>s. truthy (subscriptionEligible s)) suggestedItems),
                     timestamp = now e \<rparr> \<rparr>)"

section \<open>Savings\<close>

text \<open>\<open>item.orderQuantity || item.suggestedOrderQuantity || 1\<close>.\<close>

definition resolvedOrderQuantity :: "item \<Rightarrow> rat" where
  "resolvedOrderQuantity it = numOr (orderQuantity it) (numOr (suggestedOrderQuantity it) 1)"

definition bulkDiscountRate :: "item \<Rightarrow> rat" where
  "bulkDiscountRate it =
     (let q = resolvedOrderQuantity it;
          discountRate = (if q \<ge> 10 then 15 / 100
                          else if q \<ge> 5 then 12 / 100
                          else if q \<ge> 3 then 10 / 100
                          else 0)
      in if category it = Some ''grocery'' \<and> q \<ge> 3 then max discountRate (8 / 100)
         else if category it = Some ''household'' \<and> q \<ge> 3 then max discountRate (12 / 100)
         else if category it = Some ''electronics'' \<and> q \<ge> 2 then max discountRate (5 / 100)
         else discountRate)"

text \<open>The reducer of \<open>calculateBulkSavings\<close>; an item whose price is absent or \<open>0\<close> leaves the
  accumulator as it is.\<close>

definition bulkStep :: "rat \<Rightarrow> item \<Rightarrow> rat" where
  "bulkStep savings it =
     (if \<not> truthyNum (price it) then savings
      else savings + the (price it) * resolvedOrderQuantity it * bulkDiscountRate it)"

definition calculateBulkSavings :: "item list option \<Rightarrow> rat" where
  "calculateBulkSavings cartItems =
     (case cartItems of
        None \<Rightarrow> 0
      | Some xs \<Rightarrow> if xs = [] then 0 else foldl bulkStep 0 xs)"

record itemSaving =
  itemId :: "nat option"
  itemName :: "string option"
  savingCategory :: "string option"
  savings :: rat
  discountRate :: "rat option"
  annualSavings :: rat
  recommended :: bool

text \<open>The result object; the property \<open>totalAnnualSavings\<close> is \<open>None\<close> where the returned
  object does not have it.\<close>

record subscriptionSavings =
  totalSavings :: rat
  itemizedSavings :: "itemSaving list"
  recommendedItems :: nat
  totalAnnualSavings :: "rat option"

definition subscriptionCandidate :: "item \<Rightarrow> bool" where
  "subscriptionCandidate it =
     (\<not> hasSubscription it \<and>
      ((truthyStr (purchaseFrequency it) \<and> purchaseFrequency it \<noteq> Some ''asNeeded'') \<or>
       (case purchaseHistory it of None \<Rightarrow> False | Some h \<Rightarrow> length h \<ge> 3)))"

definition subscriptionRate :: "item \<Rightarrow> rat" where
  "subscriptionRate it =
     (if category it = Some ''grocery'' then 10 / 100
      else if category it = Some ''household'' then 15 / 100
      else if category it = Some ''personal'' then 12 / 100
      else if category it = Some ''electronics'' then 5 / 100
      else 15 / 100)"

definition annualPurchases :: "item \<Rightarrow> rat" where
  "annualPurchases it =
     (if purchaseFrequency it = Some ''daily'' then 365
      else if purchaseFrequency it = Some ''weekly'' then 52
      else if purchaseFrequency it = Some ''biweekly'' then 26
      else if purchaseFrequency it = Some ''monthly'' then 12
      else 6)"

definition itemize :: "item \<Rightarrow> itemSaving" where
  "itemize it =
     (if \<not> truthyNum (price it) then
        \<lparr> itemId = ident it, itemName = name it, savingCategory = None, savings = 0,
          discountRate = None, annualSavings = 0, recommended = False \<rparr>
      else
        let s = the (price it) * resolvedOrderQuantity it * subscriptionRate it;
            a = the (price it) * resolvedOrderQuantity it * subscriptionRate it
                  * annualPurchases it
        in \<lparr> itemId = ident it, itemName = name it, savingCategory = category it,
             savings = s, discountRate = Some (subscriptionRate it), annualSavings = a,
             recommended = (a \<ge> 20) \<rparr>)"

definition calculateSubscriptionSavings :: "item list option \<Rightarrow> subscriptionSavings" where
  "calculateSubscriptionSavings cartItems =
     (let empty = \<lparr> totalSavings = 0, itemizedSavings = [], recommendedItems = 0,
                     totalAnnualSavings = None \<rparr>
      in case cartItems of
        None \<Rightarrow> empty
      | Some xs \<Rightarrow>
          if xs = [] then empty
          else
            let itemized = map itemize (filter subscriptionCandidate xs)
            in \<lparr> totalSavings = foldl (\<lambda>sum s. sum + savings s) 0 itemized,
                 itemizedSavings = itemized,
                 recommendedItems = length (filter recommended itemized),
                 totalAnnualSavings =
                   Some (foldl (\<lambda>sum s. sum + annualSavings s) 0 itemized) \<rparr>)"

section \<open>\<open>optimizeShoppingList\<close>\<close>

record optimizeOptions =
  preference :: string
  maxItems :: "nat option"
  budget :: "rat option"
  preferredStores :: "string list"
  includeNonEssentials :: bool

definition defaultOptimizeOptions :: optimizeOptions where
  "defaultOptimizeOptions = \<lparr> preference = ''balanced'', maxItems = None, budget = None,
     preferredStores = [], includeNonEssentials = True \<rparr>"

text \<open>The labelling pass. \<open>JSON.parse(JSON.stringify(suggestions))\<close> before it copies the list;
  on values of this record type the copy is the list itself.\<close>

definition labelEssential :: "item \<Rightarrow> item" where
  "labelEssential it =
     (if essential it \<noteq> None then it
      else if quantity it = Some 0 \<or> optLe (quantity it) (minThreshold it) then
        it \<lparr> essential := Some True \<rparr>
      else
        it \<lparr> essential := Some (purchaseFrequency it = Some ''daily'' \<or>
                                 purchaseFrequency it = Some ''weekly'' \<or>
                                 category it = Some ''grocery'' \<or>
                                 category it = Some ''household'' \<or>
                                 urgency it = Some ''high'' \<or>
                                 urgency it = Some ''critical'') \<rparr>)"

definition isEssential :: "item \<Rightarrow> bool" where
  "isEssential it = (essential it = Some True)"

text \<open>The two helpers stored as properties of the function object.\<close>

definition getUrgencyValue :: "string option \<Rightarrow> rat" where
  "getUrgencyValue u =
     (if u = Some ''critical'' then 4 else if u = Some ''high'' then 3
      else if u = Some ''medium'' then 2 else if u = Some ''low'' then 1 else 0)"

definition getUrgencyTier :: "item \<Rightarrow> rat" where
  "getUrgencyTier it =
     (if quantity it = Some 0 then 0
      else if optLe (quantity it) (minThreshold it) then 1
      else if optLe (daysLeft it) (Some 3) then 2
      else if optLe (daysLeft it) (Some 7) then 3
      else 4)"

text \<open>
  The comparators reach the helpers as \<open>this._getUrgencyValue\<close> and \<open>this._getUrgencyTier\<close>.
  \<open>optimizeShoppingList\<close> is an arrow function at the top level of an ES module, so its
  \<open>this\<close> is \<open>undefined\<close> and the property read throws a TypeError before any helper runs.
\<close>

definition thisUrgencyValue :: "string option \<Rightarrow> jsError + rat" where
  "thisUrgencyValue u = Inl TypeError"

definition thisUrgencyTier :: "item \<Rightarrow> jsError + rat" where
  "thisUrgencyTier it = Inl TypeError"

definition efficiency :: "item \<Rightarrow> rat" where
  "efficiency it =
     (if truthyNum (price it) \<and> truthyNum (suggestedOrderQuantity it)
      then the (price it) / the (suggestedOrderQuantity it) else 0)"

text \<open>An argument converted to a string: \<open>undefined\<close> becomes the text \<open>undefined\<close>.\<close>

fun toStr :: "string option \<Rightarrow> string" where
  "toStr None = ''undefined''"
| "toStr (Some s) = s"

text \<open>\<open>a.category.localeCompare(b.category)\<close>: the receiver must be a string.\<close>

definition categoryCompare :: "env \<Rightarrow> item \<Rightarrow> item \<Rightarrow> jsError + jsnum" where
  "categoryCompare e a b =
     (case category a of
        None \<Rightarrow> Inl TypeError
      | Some c \<Rightarrow> Inr (Fin (localeCompare e c (toStr (category b)))))"

fun indexFrom :: "int \<Rightarrow> string list \<Rightarrow> string \<Rightarrow> int" where
  "indexFrom i [] s = - 1"
| "indexFrom i (x # xs) s = (if x = s then i else indexFrom (i + 1) xs s)"

fun indexOf :: "string list \<Rightarrow> string option \<Rightarrow> int" where
  "indexOf xs None = - 1"
| "indexOf xs (Some s) = indexFrom 0 xs s"

fun optSub :: "rat option \<Rightarrow> rat option \<Rightarrow> jsnum" where
  "optSub (Some a) (Some b) = Fin (a - b)"
| "optSub _ _ = NaN"

definition differentStores :: "item \<Rightarrow> item \<Rightarrow> bool" where
  "differentStores a b = (store a \<noteq> store b \<and> truthyStr (store a) \<and> truthyStr (store b))"

definition costCompare :: "env \<Rightarrow> item \<Rightarrow> item \<Rightarrow> jsError + jsnum" where
  "costCompare e a b =
     (if isEssential a \<and> \<not> isEssential b then Inr (Fin (- 1))
      else if \<not> isEssential a \<and> isEssential b then Inr (Fin 1)
      else if differentStores a b then
        Inr (Fin (localeCompare e (the (store a)) (the (store b))))
      else if category a \<noteq> category b then categoryCompare e a b
      else if efficiency a \<noteq> 0 \<and> efficiency b \<noteq> 0 then
        Inr (Fin (efficiency a - efficiency b))
      else
        case thisUrgencyValue (urgency b) of
          Inl err \<Rightarrow> Inl err
        | Inr vb \<Rightarrow> (case thisUrgencyValue (urgency a) of
                       Inl err \<Rightarrow> Inl err
                     | Inr va \<Rightarrow> Inr (Fin (vb - va))))"

definition timeCompare :: "env \<Rightarrow> string list \<Rightarrow> item \<Rightarrow> item \<Rightarrow> jsError + jsnum" where
  "timeCompare e stores a b =
     (let aStoreIndex = indexOf stores (store a);
          bStoreIndex = indexOf stores (store b)
      in if isEssential a \<and> \<not> isEssential b then Inr (Fin (- 1))
         else if \<not> isEssential a \<and> isEssential b then Inr (Fin 1)
         else if stores \<noteq> [] \<and> aStoreIndex \<noteq> - 1 \<and> bStoreIndex \<noteq> - 1 then
           Inr (Fin (of_int (aStoreIndex - bStoreIndex)))
         else if stores \<noteq> [] \<and> aStoreIndex \<noteq> - 1 then Inr (Fin (- 1))
         else if stores \<noteq> [] \<and> bStoreIndex \<noteq> - 1 then Inr (Fin 1)
         else if differentStores a b then
           Inr (Fin (localeCompare e (the (store a)) (the (store b))))
         else if category a \<noteq> category b then categoryCompare e a b
         else if truthyNum (aisle a) \<and> truthyNum (aisle b) \<and> aisle a \<noteq> aisle b then
           Inr (optSub (aisle a) (aisle b))
         else Inr (Fin 0))"

definition urgentCompare :: "item \<Rightarrow> item \<Rightarrow> jsError + jsnum" where
  "urgentCompare a b =
     (case thisUrgencyValue (urgency a) of
        Inl err \<Rightarrow> Inl err
      | Inr va \<Rightarrow>
          (case thisUrgencyValue (urgency b) of
             Inl err \<Rightarrow> Inl err
           | Inr vb \<Rightarrow>
               if va \<noteq> vb then Inr (Fin (vb - va))
               else if quantity a = Some 0 \<and> quantity b \<noteq> Some 0 then Inr (Fin (- 1))
               else if quantity a \<noteq> Some 0 \<and> quantity b = Some 0 then Inr (Fin 1)
               else Inr (optSub (daysLeft a) (daysLeft b))))"

definition balancedCompare :: "env \<Rightarrow> string list \<Rightarrow> item \<Rightarrow> item \<Rightarrow> jsError + jsnum" where
  "balancedCompare e stores a b =
     (case thisUrgencyTier a of
        Inl err \<Rightarrow> Inl err
      | Inr ta \<Rightarrow>
          (case thisUrgencyTier b of
             Inl err \<Rightarrow> Inl err
           | Inr tb \<Rightarrow>
               let aStoreIndex = indexOf stores (store a);
                   bStoreIndex = indexOf stores (store b)
               in if ta \<noteq> tb then Inr (Fin (ta - tb))
                  else if stores \<noteq> [] \<and> aStoreIndex \<noteq> - 1 \<and> bStoreIndex \<noteq> - 1
                          \<and> aStoreIndex \<noteq> bStoreIndex then
                    Inr (Fin (of_int (aStoreIndex - bStoreIndex)))
                  else if category a \<noteq> category b then categoryCompare e a b
                  else if efficiency a \<noteq> 0 \<and> efficiency b \<noteq> 0 then
                    Inr (Fin (efficiency a - efficiency b))
                  else Inr (Fin 0)))"

definition preferenceCompare :: "env \<Rightarrow> optimizeOptions \<Rightarrow> item \<Rightarrow> item \<Rightarrow> jsError + jsnum" where
  "preferenceCompare e opts =
     (if preference opts = ''cost'' then costCompare e
      else if preference opts = ''time'' then timeCompare e (preferredStores opts)
      else if preference opts = ''urgent'' then urgentCompare
      else balancedCompare e (preferredStores opts))"

text \<open>
  \<open>Array.prototype.sort\<close> with a comparator, as a stable insertion sort that stops at the
  first comparison that throws. A positive result puts the second argument first; zero and
  NaN leave the two in their order. This is the result of every conforming engine when the
  comparator is a consistent ordering (the sort is stable) and when the comparator throws
  on its first call (a list of two or more items needs a comparison); for other comparators
  the language leaves the order to the engine, and this is one such order.
\<close>

fun insertSorted ::
  "(item \<Rightarrow> item \<Rightarrow> jsError + jsnum) \<Rightarrow> item \<Rightarrow> item list \<Rightarrow> jsError + item list" where
  "insertSorted cmp x [] = Inr [x]"
| "insertSorted cmp x (y # ys) =
     (case cmp x y of
        Inl err \<Rightarrow> Inl err
      | Inr v \<Rightarrow>
          if jgt v (Fin 0) then
            (case insertSorted cmp x ys of Inl err \<Rightarrow> Inl err | Inr r \<Rightarrow> Inr (y # r))
          else Inr (x # y # ys))"

fun arraySort :: "(item \<Rightarrow> item \<Rightarrow> jsError + jsnum) \<Rightarrow> item list \<Rightarrow> jsError + item list" where
  "arraySort cmp [] = Inr []"
| "arraySort cmp (x # xs) =
     (case arraySort cmp xs of Inl err \<Rightarrow> Inl err | Inr ys \<Rightarrow> insertSorted cmp x ys)"

text \<open>\<open>(item.price || 0) * item.suggestedOrderQuantity\<close>.\<close>

definition itemCost :: "item \<Rightarrow> jsnum" where
  "itemCost it =
     (case suggestedOrderQuantity it of
        None \<Rightarrow> NaN
      | Some q \<Rightarrow> Fin (numOr (price it) 0 * q))"

text \<open>The cost of a list of items, added up from \<open>0\<close> in list order.\<close>

definition costSum :: "item list \<Rightarrow> jsnum" where
  "costSum xs = foldl (\<lambda>sum it. jadd sum (itemCost it)) (Fin 0) xs"

text \<open>The budget filter, with its running total passed along.\<close>

fun budgetFilter :: "rat \<Rightarrow> jsnum \<Rightarrow> item list \<Rightarrow> item list" where
  "budgetFilter b runningTotal [] = []"
| "budgetFilter b runningTotal (it # rest) =
     (if isEssential it then it # budgetFilter b (jadd runningTotal (itemCost it)) rest
      else if jle (jadd runningTotal (itemCost it)) (Fin b) then
        it # budgetFilter b (jadd runningTotal (itemCost it)) rest
      else budgetFilter b runningTotal rest)"

definition applyBudget :: "rat option \<Rightarrow> item list \<Rightarrow> item list" where
  "applyBudget bud xs =
     (case bud of
        None \<Rightarrow> xs
      | Some b \<Rightarrow> if b > 0 then budgetFilter b (Fin 0) xs else xs)"

definition applyMaxItems :: "nat option \<Rightarrow> item list \<Rightarrow> item list" where
  "applyMaxItems cap xs =
     (case cap of
        None \<Rightarrow> xs
      | Some m \<Rightarrow>
          if m > 0 \<and> length xs > m then
            let essentialItems = filter isEssential xs;
                nonEssentialItems = filter (\<lambda>it. \<not> isEssential it) xs
            in if length essentialItems \<ge> m then take m essentialItems
               else essentialItems @ take (m - length essentialItems) nonEssentialItems
          else xs)"

record optimizeCounts =
  listTotalItems :: nat
  essentialItems :: nat
  nonEssentialItems :: nat
  estimatedTotalCost :: jsnum
  potentialBulkSavings :: rat
  potentialSubscriptionSavings :: subscriptionSavings
  optimizationPreference :: string
  optimizedAt :: string

definition optimizeShoppingList ::
  "env \<Rightarrow> item list option \<Rightarrow> optimizeOptions \<Rightarrow> optimizeCounts result" where
  "optimizeShoppingList e suggestions opts =
     (case suggestions of
        None \<Rightarrow> \<lparr> items = [], metadata = Failed ''Invalid or empty suggestions list'' \<rparr>
      | Some xs \<Rightarrow>
          if xs = [] then
            \<lparr> items = [], metadata = Failed ''Invalid or empty suggestions list'' \<rparr>
          else
            let labelled = map labelEssential xs;
                candidates = (if includeNonEssentials opts then labelled
                              else filter isEssential labelled)
            in (case arraySort (preferenceCompare e opts) candidates of
                 Inl err \<Rightarrow> \<lparr> items = [], metadata = Threw err \<rparr>
               | Inr ordered \<Rightarrow>
                   let optimized = applyMaxItems (maxItems opts)
                                     (applyBudget (budget opts) ordered)
                   in \<lparr> items = optimized,
                        metadata = Succeeded
                          \<lparr> listTotalItems = length optimized,
                            essentialItems = length (filter isEssential optimized),
                            nonEssentialItems =
                              length (filter (\<lambda>it. \<not> isEssential it) optimized),
                            estimatedTotalCost = costSum optimized,
                            potentialBulkSavings = calculateBulkSavings (Some optimized),
                            potentialSubscriptionSavings =
                              calculateSubscriptionSavings (Some optimized),
                            optimizationPreference = preference opts,
                            optimizedAt = now e \<rparr> \<rparr>))"

section \<open>\<open>generateSmartReorderPlan\<close>\<close>

record planOptions =
  planBudget :: "rat option"
  daysToLookAhead :: rat
  planMaxItems :: "nat option"
  planPreferredStores :: "string list"
  planPreference :: string

definition defaultPlanOptions :: planOptions where
  "defaultPlanOptions = \<lparr> planBudget = None, daysToLookAhead = 14, planMaxItems = None,
     planPreferredStores = [], planPreference = ''balanced'' \<rparr>"

text \<open>The filter and map callbacks that collect the upcoming items.\<close>

definition isUpcoming :: "item list \<Rightarrow> rat \<Rightarrow> item \<Rightarrow> bool" where
  "isUpcoming immediateItems lookAhead it =
     (if list_ex (\<lambda>i. ident i = ident it) immediateItems then False
      else if \<not> valid (validateItem it) then False
      else
        let dl = numberProperty (calculateDaysLeft it)
        in optGt dl (Some 7) \<and> optLe dl (Some lookAhead))"

definition toUpcoming :: "item \<Rightarrow> item" where
  "toUpcoming it =
     (let daysLeftInfo = calculateDaysLeft it
      in it \<lparr> daysLeft := numberProperty daysLeftInfo,
              confidence := numberProperty daysLeftInfo,
              suggestedOrderQuantity :=
                Some (if truthyNum (optimalOrderQuantity it) then the (optimalOrderQuantity it)
                      else max 1 (numOr (minThreshold it) 1)),
              urgency := Some ''upcoming'',
              essential := Some False \<rparr>)"

definition upcomingItems :: "item list \<Rightarrow> rat \<Rightarrow> item list \<Rightarrow> item list" where
  "upcomingItems immediateItems lookAhead stock =
     map toUpcoming (filter (isUpcoming immediateItems lookAhead) stock)"

text \<open>The \<open>forEach\<close> that marks bulk orders. Without a suggested quantity the regular total
  is NaN and the comparison with it is false.\<close>

definition recommendBulk :: "item \<Rightarrow> item" where
  "recommendBulk it =
     (if \<not> truthyNum (price it) then it
      else
        case suggestedOrderQuantity it of
          None \<Rightarrow> it
        | Some q \<Rightarrow>
            let regularTotal = the (price it) * q;
                bulkDiscount = calculateBulkSavings (Some [it])
            in if bulkDiscount > regularTotal * (7 / 100) then
                 let increasedQuantity = of_int \<lceil>q * (3 / 2)\<rceil>
                 in it \<lparr> bulkOrderRecommended := Some True,
                         regularOrderQuantity := Some q,
                         bulkOrderQuantity := Some increasedQuantity,
                         bulkOrderSavings :=
                           Some (the (price it) * increasedQuantity * (1 / 10) - bulkDiscount) \<rparr>
               else it)"

record batch =
  batchItems :: "item list"
  totalCost :: jsnum
  itemCount :: nat
  essentialItemCount :: nat

definition closeBatch :: "item list \<Rightarrow> jsnum \<Rightarrow> batch" where
  "closeBatch currentBatch currentBatchCost =
     \<lparr> batchItems = currentBatch, totalCost = currentBatchCost,
       itemCount = length currentBatch,
       essentialItemCount = length (filter isEssential currentBatch) \<rparr>"

text \<open>The comparator of the sort before batching; it calls no method and cannot throw.\<close>

definition batchOrder :: "item \<Rightarrow> item \<Rightarrow> jsnum" where
  "batchOrder a b =
     (if quantity a = Some 0 \<and> quantity b \<noteq> Some 0 then Fin (- 1)
      else if quantity a \<noteq> Some 0 \<and> quantity b = Some 0 then Fin 1
      else if optLe (quantity a) (minThreshold a) \<and> optGt (quantity b) (minThreshold b)
        then Fin (- 1)
      else if optGt (quantity a) (minThreshold a) \<and> optLe (quantity b) (minThreshold b)
        then Fin 1
      else optSub (daysLeft a) (daysLeft b))"

definition batchCompare :: "item \<Rightarrow> item \<Rightarrow> jsError + jsnum" where
  "batchCompare a b = Inr (batchOrder a b)"

text \<open>The body of the batching \<open>forEach\<close>, on the three variables it updates:
  \<open>batches\<close>, \<open>currentBatch\<close> and \<open>currentBatchCost\<close>.\<close>

definition batchStep ::
  "batch list \<times> item list \<times> jsnum \<Rightarrow> item \<Rightarrow> batch list \<times> item list \<times> jsnum" where
  "batchStep st it =
     (case st of (batches, currentBatch, currentBatchCost) \<Rightarrow>
        if length currentBatch \<ge> 10
           \<or> (jgt (jadd currentBatchCost (itemCost it)) (Fin 100) \<and> length currentBatch > 0)
        then (batches @ [closeBatch currentBatch currentBatchCost], [it],
              jadd (Fin 0) (itemCost it))
        else (batches, currentBatch @ [it], jadd currentBatchCost (itemCost it)))"

definition createBatches :: "item list \<Rightarrow> batch list" where
  "createBatches ordered =
     (case foldl batchStep ([], [], Fin 0) ordered of
        (batches, currentBatch, currentBatchCost) \<Rightarrow>
          if length currentBatch > 0 then batches @ [closeBatch currentBatch currentBatchCost]
          else batches)"

text \<open>Lines 1520 to 1567: sort the optimized items for batching, then cut them into batches.\<close>

definition planBatches :: "item list \<Rightarrow> jsError + batch list" where
  "planBatches optimizedItems =
     (case arraySort batchCompare optimizedItems of
        Inl err \<Rightarrow> Inl err
      | Inr ordered \<Rightarrow> Inr (createBatches ordered))"

record plan =
  batches :: "batch list"
  totalBatches :: nat
  planTotalItems :: nat
  planTotalCost :: "jsnum option"
  planBulkSavings :: "rat option"
  planSubscriptionSavings :: "subscriptionSavings option"
  planTimestamp :: string

definition generateSmartReorderPlan ::
  "env \<Rightarrow> item list option \<Rightarrow> planOptions \<Rightarrow> plan outcome" where
  "generateSmartReorderPlan e inventory opts =
     (case inventory of
        None \<Rightarrow> Failed ''Invalid or empty inventory''
      | Some stock \<Rightarrow>
          if stock = [] then Failed ''Invalid or empty inventory''
          else
            let immediate = calculateReorderSuggestions e (Some stock)
                  \<lparr> notificationThreshold = 7, includeAlmostEmpty = True,
                    includeBelowThreshold = True, includeOutOfStock = True,
                    bulkPurchaseThreshold = 3 \<rparr>;
                upcoming = upcomingItems (items immediate) (daysToLookAhead opts) stock;
                allReorderItems = map recommendBulk (items immediate @ upcoming);
                optimized = optimizeShoppingList e (Some allReorderItems)
                  \<lparr> preference = planPreference opts, maxItems = planMaxItems opts,
                    budget = planBudget opts, preferredStores = planPreferredStores opts,
                    includeNonEssentials = True \<rparr>;
                counts = (case metadata optimized of Succeeded c \<Rightarrow> Some c | _ \<Rightarrow> None)
            in (case planBatches (items optimized) of
                  Inl err \<Rightarrow> Threw err
                | Inr bs \<Rightarrow>
                    Succeeded
                      \<lparr> batches = bs, totalBatches = length bs,
                        planTotalItems = length (items optimized),
                        planTotalCost = map_option estimatedTotalCost counts,
                        planBulkSavings = map_option potentialBulkSavings counts,
                        planSubscriptionSavings =
                          map_option potentialSubscriptionSavings counts,
                        planTimestamp = now e \<rparr>))"

section \<open>The savings rule in the words of the specification\<close>




section \<open>The batching rule in the words of the specification\<close>

text \<open>A new batch starts before the next item when the current batch already has 10 items,
  or when the current batch is not empty and the item's cost would push the running batch
  cost over 100.\<close>

definition startsNewBatch :: "item list \<Rightarrow> item \<Rightarrow> bool" where
  "startsNewBatch current it =
     (length current \<ge> 10
      \<or> (current \<noteq> [] \<and> jgt (jadd (costSum current) (itemCost it)) (Fin 100)))"





section \<open>Concrete inputs\<close>

text \<open>A sample collation (by character code) and a sample environment.\<close>

fun codeOrder :: "string \<Rightarrow> string \<Rightarrow> rat" where
  "codeOrder [] [] = 0"
| "codeOrder [] (y # ys) = - 1"
| "codeOrder (x # xs) [] = 1"
| "codeOrder (x # xs) (y # ys) =
     (if (of_char x :: nat) < of_char y then - 1
      else if (of_char y :: nat) < of_char x then 1
      else codeOrder xs ys)"

definition env0 :: env where
  "env0 = \<lparr> now = ''2025-01-01T00:00:00.000Z'', localeCompare = codeOrder \<rparr>"

definition env1 :: env where
  "env1 = \<lparr> now = ''2025-06-30T12:00:00.000Z'', localeCompare = codeOrder \<rparr>"

text \<open>\<open>{name: "Milk", quantity: 0, minThreshold: 2, category: "grocery",
  purchaseFrequency: "weekly"}\<close>\<close>

definition milk :: item where
  "milk = emptyItem \<lparr> name := Some ''Milk'', quantity := Some 0, category := Some ''grocery'',
     minThreshold := Some 2, purchaseFrequency := Some ''weekly'' \<rparr>"

text \<open>\<open>{name: "Rice", quantity: 5, minThreshold: 0, category: "grocery"}\<close>\<close>

definition rice :: item where
  "rice = emptyItem \<lparr> name := Some ''Rice'', quantity := Some 5, category := Some ''grocery'',
     minThreshold := Some 0 \<rparr>"

text \<open>\<open>{name: "Soap", quantity: 0, category: "household"}\<close>\<close>

definition soap :: item where
  "soap = emptyItem \<lparr> name := Some ''Soap'', quantity := Some 0,
     category := Some ''household'' \<rparr>"

text \<open>\<open>{name: "Bread", quantity: 1, minThreshold: 2, category: "grocery",
  purchaseFrequency: "biweekly"}\<close>\<close>

definition bread :: item where
  "bread = emptyItem \<lparr> name := Some ''Bread'', quantity := Some 1, category := Some ''grocery'',
     minThreshold := Some 2, purchaseFrequency := Some ''biweekly'' \<rparr>"



text \<open>Four suggestions that carry their own \<open>essential\<close> label and days left, and
  options with a budget of 100 and a cap of one item.\<close>

definition pasta :: item where
  "pasta = emptyItem \<lparr> name := Some ''Pasta'', quantity := Some 1, category := Some ''grocery'',
     minThreshold := Some 2, price := Some 20, suggestedOrderQuantity := Some 1,
     daysLeft := Some 2, essential := Some True \<rparr>"

definition beans :: item where
  "beans = emptyItem \<lparr> name := Some ''Beans'', quantity := Some 1, category := Some ''grocery'',
     minThreshold := Some 2, price := Some 30, suggestedOrderQuantity := Some 1,
     daysLeft := Some 4, essential := Some True \<rparr>"

definition candle :: item where
  "candle = emptyItem \<lparr> name := Some ''Candle'', quantity := Some 5,
     category := Some ''general'', minThreshold := Some 1, price := Some 40,
     suggestedOrderQuantity := Some 1, daysLeft := Some 3,
     essential := Some False \<rparr>"

definition lamp :: item where
  "lamp = emptyItem \<lparr> name := Some ''Lamp'', quantity := Some 5,
     category := Some ''general'', minThreshold := Some 1, price := Some 40,
     suggestedOrderQuantity := Some 1, daysLeft := Some 6,
     essential := Some False \<rparr>"




section \<open>Auxiliary views of the optimizer\<close>

text \<open>The list that enters the budget step: the labelled, filtered and sorted suggestions,
  or nothing when the input is rejected or the sort throws.\<close>

definition orderedCandidates ::
  "env \<Rightarrow> item list option \<Rightarrow> optimizeOptions \<Rightarrow> item list option" where
  "orderedCandidates e suggestions opts =
     (case suggestions of
        None \<Rightarrow> None
      | Some xs \<Rightarrow>
          if xs = [] then None
          else
            (case arraySort (preferenceCompare e opts)
                    (if includeNonEssentials opts then map labelEssential xs
                     else filter isEssential (map labelEssential xs)) of
               Inl err \<Rightarrow> None
             | Inr ordered \<Rightarrow> Some ordered))"




section \<open>Validation and the suggestion generator\<close>

lemma quantity_zero_invalid: "quantity it = Some 0 \<Longrightarrow> \<not> valid (validateItem it)"
  by (simp add: validateItem_def missingFields_def)

lemma days_left_out_of_stock: "quantity it = Some 0 \<Longrightarrow> calculateDaysLeft it = Fin 0"
  by (simp add: calculateDaysLeft_def)

lemma urgency_out_of_stock:
  "quantity it = Some 0 \<Longrightarrow> urgency (toSuggestion opts it) = Some ''critical''"
  by (simp add: toSuggestion_def urgencyOf_def Let_def)

text \<open>An item that reaches the output kept its quantity, and that quantity is not zero:
  the filter asks \<open>validateItem\<close> first, which reports a quantity of \<open>0\<close> as missing.\<close>

lemma suggested_quantity_nonzero:
  assumes "s \<in> set (items (calculateReorderSuggestions e stock opts))"
  shows "quantity s \<noteq> Some 0"
proof -
  from assms obtain it where it: "needsAttention opts it" "s = toSuggestion opts it"
    by (auto simp: calculateReorderSuggestions_def Let_def split: option.splits if_splits)
  from it(1) have "valid (validateItem it)"
    by (simp add: needsAttention_def split: if_splits)
  then have "quantity it \<noteq> Some 0"
    using quantity_zero_invalid by blast
  with it(2) show ?thesis
    by (simp add: toSuggestion_def Let_def)
qed

text \<open>
  Claim C1. The scenario item (quantity 0, threshold 2, grocery, weekly) alone in the
  inventory, default options: the map callback would give it urgency \<open>critical\<close> and a
  suggested order quantity of 4, but \<open>validateItem\<close> answers "Missing required fields:
  quantity" and the filter drops the item, so \<open>items\<close> is empty.
\<close>

theorem scenario_item_is_rejected:
  "validateItem milk = \<lparr> valid = False, error = Some ''Missing required fields: quantity'' \<rparr>
   \<and> items (calculateReorderSuggestions e (Some [milk]) defaultReorderOptions) = []
   \<and> urgency (toSuggestion defaultReorderOptions milk) = Some ''critical''
   \<and> suggestedOrderQuantity (toSuggestion defaultReorderOptions milk) = Some 4"
  by (simp add: calculateReorderSuggestions_def needsAttention_def validateItem_def
      missingFields_def toSuggestion_def rawOrderQuantity_def urgencyOf_def
      milk_def emptyItem_def Let_def)

section \<open>Days left\<close>

text \<open>With stock in hand and a resolved daily rate of zero, the quotient is \<open>Infinity\<close> and
  \<open>Math.ceil\<close> returns it unchanged.\<close>

lemma zero_rate_days_left:
  "optGt (quantity it) (Some 0) \<Longrightarrow> dailyRate it = Fin 0 \<Longrightarrow> calculateDaysLeft it = PInf"
  by (cases "quantity it") (auto simp: calculateDaysLeft_def)

text \<open>
  Claim C3. For the item with quantity 5, threshold 0 and no consumption rate, the resolved
  daily rate is \<open>0 / 14 = 0\<close> and \<open>calculateDaysLeft\<close> returns \<open>Infinity\<close>, which is neither
  a finite bound nor an integer.
\<close>

theorem days_left_unguarded_division:
  "dailyRate rice = Fin 0 \<and> calculateDaysLeft rice = PInf
   \<and> \<not> isInteger (calculateDaysLeft rice)"
  by (simp add: calculateDaysLeft_def dailyRate_def rice_def emptyItem_def)

text \<open>
  Claim C4. For the out-of-stock item \<open>soap\<close>, \<open>calculateDaysLeft\<close> returns 0 and the urgency
  rule of the map callback answers \<open>critical\<close>; the suggestion generator nevertheless
  returns no suggestion for it, so no urgency is attached to the item.
\<close>

theorem out_of_stock_item_gets_no_urgency:
  "calculateDaysLeft soap = Fin 0
   \<and> urgencyOf soap (numberProperty (calculateDaysLeft soap)) = ''critical''
   \<and> \<not> needsAttention defaultReorderOptions soap
   \<and> items (calculateReorderSuggestions e (Some [soap]) defaultReorderOptions) = []"
  by (simp add: calculateReorderSuggestions_def needsAttention_def validateItem_def
      missingFields_def calculateDaysLeft_def urgencyOf_def soap_def emptyItem_def)

section \<open>Suggested order quantities\<close>





section \<open>Determinism\<close>

text \<open>
  Claim C9. The items returned by \<open>calculateReorderSuggestions\<close> depend on the inventory and
  the options only: two calls with the same inventory and options return the same list,
  whatever the clock and the collation are at each call.
\<close>

theorem suggestions_deterministic:
  "items (calculateReorderSuggestions e1 stock opts)
     = items (calculateReorderSuggestions e2 stock opts)"
  by (simp add: calculateReorderSuggestions_def Let_def split: option.splits)

section \<open>Subscription eligibility\<close>



section \<open>Savings\<close>

text \<open>
  Claim C7. On the empty list \<open>calculateBulkSavings\<close> returns 0 and
  \<open>calculateSubscriptionSavings\<close> returns total savings 0, an empty itemization and 0
  recommended items, but the returned object has no \<open>totalAnnualSavings\<close> property.
\<close>

theorem empty_cart_savings:
  "calculateBulkSavings (Some []) = 0
   \<and> totalSavings (calculateSubscriptionSavings (Some [])) = 0
   \<and> itemizedSavings (calculateSubscriptionSavings (Some [])) = []
   \<and> recommendedItems (calculateSubscriptionSavings (Some [])) = 0
   \<and> totalAnnualSavings (calculateSubscriptionSavings (Some [])) = None"
  by (simp add: calculateBulkSavings_def calculateSubscriptionSavings_def)





section \<open>Budget and item cap\<close>








lemma preferenceCompare_ignores_limits [simp]:
  "preferenceCompare e (opts\<lparr>maxItems := c, budget := d\<rparr>) = preferenceCompare e opts"
  "preferenceCompare e (opts\<lparr>maxItems := c\<rparr>) = preferenceCompare e opts"
  by (simp_all add: preferenceCompare_def)


lemma orderedCandidates_ignores_limits [simp]:
  "orderedCandidates e sugg (opts\<lparr>maxItems := c, budget := d\<rparr>) = orderedCandidates e sugg opts"
  "orderedCandidates e sugg (opts\<lparr>maxItems := c\<rparr>) = orderedCandidates e sugg opts"
  by (simp_all add: orderedCandidates_def split: option.splits)




lemma sample_costs:
  "itemCost pasta = Fin 20" "itemCost beans = Fin 30" "itemCost candle = Fin 40"
  "itemCost lamp = Fin 40"
  by (simp_all add: itemCost_def pasta_def beans_def candle_def lamp_def emptyItem_def)









section \<open>Batches\<close>


lemma costSum_Nil: "costSum [] = Fin 0"
  by (simp add: costSum_def)









































lemma sample_cuts: "startsNewBatch [pasta, beans, candle] lamp" "\<not> startsNewBatch [pasta] beans"
  by (simp_all add: startsNewBatch_def costSum_def sample_costs)


section \<open>Comparators that throw\<close>

text \<open>The comparators of the preferences \<open>balanced\<close> and \<open>urgent\<close> throw on every call, so
  with the default options a list of two or more suggestions comes back empty, with the
  failure object of the \<open>catch\<close> block.\<close>

lemma insertSorted_length:
  "insertSorted cmp x ys = Inr zs \<Longrightarrow> length zs = Suc (length ys)"
  by (induction ys arbitrary: zs) (auto split: sum.splits if_splits)

lemma arraySort_length: "arraySort cmp xs = Inr ys \<Longrightarrow> length ys = length xs"
  by (induction xs arbitrary: ys) (auto split: sum.splits dest: insertSorted_length)

lemma insertSorted_throwing:
  assumes "\<And>a b. cmp a b = Inl TypeError" and "ys \<noteq> []"
  shows "insertSorted cmp x ys = Inl TypeError"
  using assms by (cases ys) simp_all

lemma arraySort_throwing:
  assumes "\<And>a b. cmp a b = Inl TypeError" and "2 \<le> length xs"
  shows "arraySort cmp xs = Inl TypeError"
proof (cases xs)
  case Nil
  with assms(2) show ?thesis by simp
next
  case (Cons x rest)
  with assms(2) have rest: "rest \<noteq> []" by auto
  show ?thesis
  proof (cases "arraySort cmp rest")
    case (Inl err)
    then show ?thesis using Cons by (cases err) simp
  next
    case (Inr ys)
    then have "length ys = length rest" by (rule arraySort_length)
    with rest have "ys \<noteq> []" by auto
    with assms(1) have "insertSorted cmp x ys = Inl TypeError"
      by (rule insertSorted_throwing)
    with Inr Cons show ?thesis by simp
  qed
qed

lemma balanced_and_urgent_throw:
  "balancedCompare e stores a b = Inl TypeError" "urgentCompare a b = Inl TypeError"
  by (simp_all add: balancedCompare_def urgentCompare_def thisUrgencyTier_def
      thisUrgencyValue_def)

lemma default_preference_fails:
  assumes "2 \<le> length xs"
  shows "optimizeShoppingList e (Some xs) defaultOptimizeOptions
           = \<lparr> items = [], metadata = Threw TypeError \<rparr>"
proof -
  have c: "preferenceCompare e defaultOptimizeOptions = balancedCompare e []"
    by (simp add: preferenceCompare_def defaultOptimizeOptions_def)
  have "arraySort (balancedCompare e []) (map labelEssential xs) = Inl TypeError"
    using assms by (intro arraySort_throwing balanced_and_urgent_throw) simp
  with assms show ?thesis
    unfolding optimizeShoppingList_def c
    by (auto simp: defaultOptimizeOptions_def Let_def)
qed

section \<open>The clock\<close>

text \<open>The metadata, unlike the items, follows the clock.\<close>

lemma timestamp_follows_clock:
  "metadata (calculateReorderSuggestions env0 (Some [bread]) defaultReorderOptions)
     \<noteq> metadata (calculateReorderSuggestions env1 (Some [bread]) defaultReorderOptions)"
  by (simp add: calculateReorderSuggestions_def Let_def env0_def env1_def)

end
